theory Spec2Isabelle
  imports Main
begin

section \<open>The quick quiz (1_quick_quiz/quick_quiz.py)\<close>

text \<open>
  A shallow embedding of the quiz script. Python objects are records, every
  \<^verbatim>\<open>raise\<close> is an \<open>Inl\<close> result, mutation of \<^verbatim>\<open>self\<close> is explicit state passing
  and the terminal is a record holding the lines still to be read and the lines written
  so far.

  Python strings are modelled as \<open>string\<close>. The five \<^verbatim>\<open>str\<close> methods the script uses
  are library code; they are modelled on ASCII text only (characters with a code below
  128), where a cased character is one of the 52 ASCII letters. Statements that depend on
  what these methods return carry the hypothesis \<open>ascii_str\<close>; statements about the
  control flow of a question hold for any \<open>transformation\<close> stored in the object.
\<close>

subsection \<open>The \<^verbatim>\<open>str\<close> methods, on ASCII text\<close>

definition ascii_str :: "string \<Rightarrow> bool" where
  "ascii_str s = list_all (\<lambda>c. (of_char c :: nat) < 128) s"

definition is_upper :: "char \<Rightarrow> bool" where
  "is_upper c = (65 \<le> (of_char c :: nat) \<and> (of_char c :: nat) \<le> 90)"

definition is_lower :: "char \<Rightarrow> bool" where
  "is_lower c = (97 \<le> (of_char c :: nat) \<and> (of_char c :: nat) \<le> 122)"

definition is_cased :: "char \<Rightarrow> bool" where
  "is_cased c = (is_upper c \<or> is_lower c)"

definition to_lower :: "char \<Rightarrow> char" where
  "to_lower c = (if is_upper c then char_of ((of_char c :: nat) + 32) else c)"

definition to_upper :: "char \<Rightarrow> char" where
  "to_upper c = (if is_lower c then char_of ((of_char c :: nat) - 32) else c)"

definition swap_char :: "char \<Rightarrow> char" where
  "swap_char c = (if is_upper c then to_lower c else if is_lower c then to_upper c else c)"

definition str_upper :: "string \<Rightarrow> string" where
  "str_upper s = map to_upper s"

definition str_lower :: "string \<Rightarrow> string" where
  "str_lower s = map to_lower s"

definition str_swapcase :: "string \<Rightarrow> string" where
  "str_swapcase s = map swap_char s"

text \<open>\<^verbatim>\<open>str.capitalize\<close>: the first character upper-cased, the rest lower-cased.\<close>

definition str_capitalize :: "string \<Rightarrow> string" where
  "str_capitalize s = (case s of [] \<Rightarrow> [] | c # cs \<Rightarrow> to_upper c # map to_lower cs)"

text \<open>
  \<^verbatim>\<open>str.title\<close> walks the text with one flag, whether the previous character was
  cased: a character after a cased one is lower-cased, any other is upper-cased.
\<close>

fun title_from :: "bool \<Rightarrow> string \<Rightarrow> string" where
  "title_from previous_is_cased [] = []"
| "title_from previous_is_cased (c # cs) =
     (if previous_is_cased then to_lower c else to_upper c) # title_from (is_cased c) cs"

definition str_title :: "string \<Rightarrow> string" where
  "str_title s = title_from False s"

text \<open>\<^verbatim>\<open>str(n)\<close> for an integer, and \<^verbatim>\<open>sep.join(xs)\<close>.\<close>

fun str_nat :: "nat \<Rightarrow> string" where
  "str_nat n = (if n < 10 then [char_of (48 + n)] else str_nat (n div 10) @ [char_of (48 + n mod 10)])"

declare str_nat.simps [simp del]

definition str_int :: "int \<Rightarrow> string" where
  "str_int i = (if i < 0 then CHR ''-'' # str_nat (nat (- i)) else str_nat (nat i))"

fun join :: "string \<Rightarrow> string list \<Rightarrow> string" where
  "join sep [] = []"
| "join sep [x] = x"
| "join sep (x # y # ys) = x @ sep @ join sep (y # ys)"

definition newline :: string where
  "newline = [CHR 0x0A]"

subsection \<open>Exceptions and the terminal\<close>

datatype error = ValueError string | TypeError | EOFError

text \<open>
  A written line is the text given to \<^verbatim>\<open>print\<close> or, for \<^verbatim>\<open>input\<close>, its prompt. The
  notice of an answer that is no option interpolates the \<^verbatim>\<open>repr\<close> of a list; it is kept as
  the three values its f-string interpolates: the answer, the valid answers and the
  number of attempts remaining.
\<close>

datatype line =
    Print string
  | Input string
  | InvalidAnswerNotice string "string list" int

record world =
  stdin :: "string list"
  stdout :: "line list"

definition print :: "string \<Rightarrow> world \<Rightarrow> world" where
  "print s w = w\<lparr>stdout := stdout w @ [Print s]\<rparr>"

text \<open>\<^verbatim>\<open>input(prompt)\<close>: writes the prompt and reads a line; EOFError when none is left.\<close>

definition input :: "string \<Rightarrow> world \<Rightarrow> (error + string) \<times> world" where
  "input prompt w =
     (case stdin w of
        [] \<Rightarrow> (Inl EOFError, w\<lparr>stdout := stdout w @ [Input prompt]\<rparr>)
      | l # ls \<Rightarrow> (Inr l, w\<lparr>stdin := ls, stdout := stdout w @ [Input prompt]\<rparr>))"

subsection \<open>ResponseSettings and QuizQuestion\<close>

record ResponseSettings =
  correct_reponse :: string
  incorrect_response :: string
  max_attempts :: int
  correct_points :: int

definition default_ResponseSettings :: ResponseSettings where
  "default_ResponseSettings =
     \<lparr>correct_reponse = ''Correct!'', incorrect_response = ''Incorrect.'',
      max_attempts = 1, correct_points = 1\<rparr>"

text \<open>
  One record serves both classes: \<open>cls\<close> is the class of the object, which decides the
  method an overridden call reaches, and \<open>options\<close> is the field the subclass adds
  (unused by an object of the base class).
\<close>

datatype question_class = QuizQuestionClass | MultipleChoiceQuizQuestionClass

record QuizQuestion =
  cls :: question_class
  question :: string
  correct_answer :: string
  answer :: "string option"
  transformation_name :: string
  transformation :: "string \<Rightarrow> string"
  response_settings :: ResponseSettings
  attempt_count :: int
  options :: "(string \<times> string) list option"

text \<open>The dictionary of \<^verbatim>\<open>set_transformation\<close>.\<close>

definition transformations :: "(string \<times> (string \<Rightarrow> string)) list" where
  "transformations =
     [(''title'', str_title), (''upper'', str_upper), (''lower'', str_lower),
      (''capitalize'', str_capitalize), (''swapcase'', str_swapcase)]"

definition set_transformation :: "string \<Rightarrow> QuizQuestion \<Rightarrow> error + QuizQuestion" where
  "set_transformation name q =
     (case map_of transformations name of
        Some f \<Rightarrow> Inr (q\<lparr>transformation_name := name, transformation := f\<rparr>)
      | None \<Rightarrow> Inl (ValueError (''Invalid transformation: '' @ name)))"

definition transform :: "QuizQuestion \<Rightarrow> string \<Rightarrow> string" where
  "transform q text = transformation q text"

text \<open>
  The generated \<^verbatim>\<open>__init__\<close> assigns the fields passed by the caller and then calls
  \<^verbatim>\<open>__post_init__\<close>. The fields declared \<^verbatim>\<open>init=False\<close> and the attempt counter do not
  exist before \<^verbatim>\<open>__post_init__\<close> assigns them; the record holds \<open>None\<close>, \<open>0\<close> and the
  identity there, and no object is returned when \<^verbatim>\<open>__post_init__\<close> raises.
\<close>

definition QuizQuestion_post_init :: "QuizQuestion \<Rightarrow> error + QuizQuestion" where
  "QuizQuestion_post_init q =
     (case set_transformation (transformation_name q) q of
        Inl e \<Rightarrow> Inl e
      | Inr q1 \<Rightarrow> Inr (q1\<lparr>attempt_count := 0, answer := None\<rparr>))"

definition MultipleChoiceQuizQuestion_post_init :: "QuizQuestion \<Rightarrow> error + QuizQuestion" where
  "MultipleChoiceQuizQuestion_post_init q =
     QuizQuestion_post_init
       (q\<lparr>response_settings := (response_settings q)\<lparr>max_attempts := 3\<rparr>\<rparr>)"

definition new_QuizQuestion ::
  "string \<Rightarrow> string \<Rightarrow> string \<Rightarrow> ResponseSettings \<Rightarrow> error + QuizQuestion" where
  "new_QuizQuestion qn ca tn rs =
     QuizQuestion_post_init
       \<lparr>cls = QuizQuestionClass, question = qn, correct_answer = ca, answer = None,
        transformation_name = tn, transformation = (\<lambda>s. s), response_settings = rs,
        attempt_count = 0, options = None\<rparr>"

definition new_MultipleChoiceQuizQuestion ::
  "string \<Rightarrow> string \<Rightarrow> string \<Rightarrow> ResponseSettings \<Rightarrow> (string \<times> string) list option
     \<Rightarrow> error + QuizQuestion" where
  "new_MultipleChoiceQuizQuestion qn ca tn rs opts =
     MultipleChoiceQuizQuestion_post_init
       \<lparr>cls = MultipleChoiceQuizQuestionClass, question = qn, correct_answer = ca,
        answer = None, transformation_name = tn, transformation = (\<lambda>s. s),
        response_settings = rs, attempt_count = 0, options = opts\<rparr>"

text \<open>
  \<^verbatim>\<open>is_correct_answer\<close>: both sides go through the stored transformation. A \<^verbatim>\<open>str\<close>
  method applied to \<^verbatim>\<open>None\<close> raises TypeError.
\<close>

definition is_correct_answer :: "QuizQuestion \<Rightarrow> error + bool" where
  "is_correct_answer q =
     (case answer q of
        None \<Rightarrow> Inl TypeError
      | Some a \<Rightarrow> Inr (transform q a = transform q (correct_answer q)))"

definition increment_attempts :: "QuizQuestion \<Rightarrow> QuizQuestion" where
  "increment_attempts q = q\<lparr>attempt_count := attempt_count q + 1\<rparr>"

text \<open>\<^verbatim>\<open>not self.answer\<close> and \<^verbatim>\<open>not self.options\<close>: true of \<^verbatim>\<open>None\<close> and of the empty value.\<close>

definition no_answer :: "QuizQuestion \<Rightarrow> bool" where
  "no_answer q = (case answer q of None \<Rightarrow> True | Some a \<Rightarrow> a = [])"

definition no_options :: "QuizQuestion \<Rightarrow> bool" where
  "no_options q = (case options q of None \<Rightarrow> True | Some os \<Rightarrow> os = [])"

definition add_option :: "string \<times> string \<Rightarrow> QuizQuestion \<Rightarrow> QuizQuestion" where
  "add_option option_item q =
     (let os = (if no_options q then [] else (case options q of None \<Rightarrow> [] | Some os \<Rightarrow> os))
      in q\<lparr>options := Some (os @ [(fst option_item, snd option_item)])\<rparr>)"

subsection \<open>Prompting\<close>

definition QuizQuestion_prompt_question ::
  "QuizQuestion \<Rightarrow> world \<Rightarrow> (error + unit) \<times> QuizQuestion \<times> world" where
  "QuizQuestion_prompt_question q w =
     (case input (question q @ newline @ ''> '') w of
        (Inl e, w1) \<Rightarrow> (Inl e, q, w1)
      | (Inr l, w1) \<Rightarrow> (Inr (), q\<lparr>answer := Some l\<rparr>, w1))"

text \<open>
  The override calls the base method when there are no options and then, in either
  case, goes on to render the options: iterating \<^verbatim>\<open>None\<close> raises TypeError.
\<close>

definition MultipleChoiceQuizQuestion_prompt_question ::
  "QuizQuestion \<Rightarrow> world \<Rightarrow> (error + unit) \<times> QuizQuestion \<times> world" where
  "MultipleChoiceQuizQuestion_prompt_question q w =
     (case (if no_options q then QuizQuestion_prompt_question q w else (Inr (), q, w)) of
        (Inl e, q1, w1) \<Rightarrow> (Inl e, q1, w1)
      | (Inr u, q1, w1) \<Rightarrow>
          (case options q1 of
             None \<Rightarrow> (Inl TypeError, q1, w1)
           | Some os \<Rightarrow>
               (let question_with_options =
                      question q1 @ newline
                        @ join newline (map (\<lambda>item. ''  '' @ fst item @ '': '' @ snd item) os)
                in case input (question_with_options @ newline @ ''> '') w1 of
                     (Inl e, w2) \<Rightarrow> (Inl e, q1, w2)
                   | (Inr l, w2) \<Rightarrow> (Inr (), q1\<lparr>answer := Some l\<rparr>, w2))))"

definition prompt_question ::
  "QuizQuestion \<Rightarrow> world \<Rightarrow> (error + unit) \<times> QuizQuestion \<times> world" where
  "prompt_question q w =
     (case cls q of
        QuizQuestionClass \<Rightarrow> QuizQuestion_prompt_question q w
      | MultipleChoiceQuizQuestionClass \<Rightarrow> MultipleChoiceQuizQuestion_prompt_question q w)"

subsection \<open>Validation\<close>

text \<open>Neither \<^verbatim>\<open>validate_response\<close> assigns a field; the override may print.\<close>

definition QuizQuestion_validate_response :: "QuizQuestion \<Rightarrow> error + bool" where
  "QuizQuestion_validate_response q =
     (if correct_answer q = [] then
        Inl (ValueError (''No correct answer provided for '' @ question q))
      else if no_answer q then
        Inl (ValueError (''No answer provided for '' @ question q))
      else Inr True)"

definition valid_possible_answers :: "QuizQuestion \<Rightarrow> error + string list" where
  "valid_possible_answers q =
     (case options q of
        None \<Rightarrow> Inl TypeError
      | Some os \<Rightarrow> Inr (map (\<lambda>option. transform q (fst option)) os))"

definition MultipleChoiceQuizQuestion_validate_response ::
  "QuizQuestion \<Rightarrow> world \<Rightarrow> (error + bool) \<times> world" where
  "MultipleChoiceQuizQuestion_validate_response q w =
     (if correct_answer q = [] then
        (Inl (ValueError (''No correct answer provided for '' @ question q)), w)
      else if no_answer q then
        (Inl (ValueError (''No answer provided for '' @ question q)), w)
      else
        (case (if no_options q then QuizQuestion_validate_response q else Inr True) of
           Inl e \<Rightarrow> (Inl e, w)
         | Inr u \<Rightarrow>
             (case valid_possible_answers q of
                Inl e \<Rightarrow> (Inl e, w)
              | Inr valid \<Rightarrow>
                  if correct_answer q \<notin> set valid then
                    (Inl (ValueError ''Correct answer is not available''), w)
                  else
                    (case answer q of
                       None \<Rightarrow> (Inl TypeError, w)
                     | Some a \<Rightarrow>
                         if transform q a \<notin> set valid then
                           (Inr False,
                            w\<lparr>stdout := stdout w @
                               [InvalidAnswerNotice a valid
                                  (max_attempts (response_settings q) - attempt_count q)]\<rparr>)
                         else (Inr True, w)))))"

definition validate_response :: "QuizQuestion \<Rightarrow> world \<Rightarrow> (error + bool) \<times> world" where
  "validate_response q w =
     (case cls q of
        QuizQuestionClass \<Rightarrow> (QuizQuestion_validate_response q, w)
      | MultipleChoiceQuizQuestionClass \<Rightarrow> MultipleChoiceQuizQuestion_validate_response q w)"

subsection \<open>The ask, validate and retry loop\<close>

definition print_question_header :: "int option \<Rightarrow> QuizQuestion \<Rightarrow> world \<Rightarrow> QuizQuestion \<times> world" where
  "print_question_header question_number q w =
     (if attempt_count q = 0 then
        (let question_header = [];
             q1 = (case question_number of
                     None \<Rightarrow> q
                   | Some n \<Rightarrow>
                       if n \<noteq> 0 then q\<lparr>question := str_int n @ ''. '' @ question q\<rparr> else q)
         in (q1, print question_header w))
      else (q, w))"

lemma prompt_question_attempt_count:
  "prompt_question q w = (r, q1, w1) \<Longrightarrow> attempt_count q1 = attempt_count q"
  by (auto simp: prompt_question_def QuizQuestion_prompt_question_def
      MultipleChoiceQuizQuestion_prompt_question_def Let_def
      split: question_class.splits prod.splits sum.splits if_splits option.splits)

text \<open>
  The \<^verbatim>\<open>while\<close> loop of \<^verbatim>\<open>handle_question_and_answer\<close>, from the state after the
  first validation: \<open>is_valid_response\<close> and \<open>max_attempts\<close> are the local variables.
\<close>

function retry_while ::
  "int \<Rightarrow> bool \<Rightarrow> QuizQuestion \<Rightarrow> world \<Rightarrow> (error + bool) \<times> QuizQuestion \<times> world" where
  "retry_while max_attempts' is_valid_response q w =
     (if \<not> is_valid_response \<and> attempt_count q < max_attempts' then
        (case prompt_question q w of
           (Inl e, q1, w1) \<Rightarrow> (Inl e, q1, w1)
         | (Inr u, q1, w1) \<Rightarrow>
             (let q2 = increment_attempts q1
              in case validate_response q2 w1 of
                   (Inl e, w2) \<Rightarrow> (Inl e, q2, w2)
                 | (Inr v, w2) \<Rightarrow> retry_while max_attempts' v q2 w2))
      else (Inr is_valid_response, q, w))"
  by pat_completeness auto
termination
  by (relation "measure (\<lambda>(m, v, q, w). nat (m - attempt_count q))")
    (auto simp: increment_attempts_def dest!: prompt_question_attempt_count [OF sym])

declare retry_while.simps [simp del]

definition handle_question_and_answer ::
  "int option \<Rightarrow> QuizQuestion \<Rightarrow> world \<Rightarrow> (error + unit) \<times> QuizQuestion \<times> world" where
  "handle_question_and_answer question_number q w =
     (case print_question_header question_number q w of (q0, w0) \<Rightarrow>
      (case prompt_question q0 w0 of
        (Inl e, q1, w1) \<Rightarrow> (Inl e, q1, w1)
      | (Inr u, q1, w1) \<Rightarrow>
          (let q2 = increment_attempts q1
           in case validate_response q2 w1 of
                (Inl e, w2) \<Rightarrow> (Inl e, q2, w2)
              | (Inr v, w2) \<Rightarrow>
                  (let max_attempts' = max_attempts (response_settings q2)
                   in case retry_while max_attempts' v q2 w2 of
                        (Inl e, q3, w3) \<Rightarrow> (Inl e, q3, w3)
                      | (Inr is_valid_response, q3, w3) \<Rightarrow>
                          (let w4 = (if \<not> is_valid_response \<and> attempt_count q3 = max_attempts'
                                     then print (''Maximum number of attempts (''
                                              @ str_int max_attempts'
                                              @ '') reached for this question'') w3
                                     else w3)
                           in case is_correct_answer q3 of
                                Inl e \<Rightarrow> (Inl e, q3, w4)
                              | Inr c \<Rightarrow>
                                  (Inr (), q3,
                                   print (if c then correct_reponse (response_settings q3)
                                          else incorrect_response (response_settings q3)) w4))))))"

subsection \<open>SimpleQuiz and main\<close>

record SimpleQuiz =
  score :: int

definition startup_response_settings :: ResponseSettings where
  "startup_response_settings =
     \<lparr>correct_reponse = ''Great! Let's play :)'',
      incorrect_response = ''Another time then! Goodbye :)'',
      max_attempts = 2, correct_points = 0\<rparr>"

text \<open>The question of \<^verbatim>\<open>startup\<close>, as built before it is asked.\<close>

definition startup_question :: "error + QuizQuestion" where
  "startup_question =
     (case new_MultipleChoiceQuizQuestion ''Do you want to play?'' ''Y'' ''title''
             startup_response_settings None of
        Inl e \<Rightarrow> Inl e
      | Inr q \<Rightarrow> Inr (add_option (''N'', ''No'') (add_option (''Y'', ''Yes'') q)))"

definition startup :: "world \<Rightarrow> (error + bool) \<times> world" where
  "startup w =
     (let w0 = print ''Welcome to my computer quiz!'' w
      in case startup_question of
           Inl e \<Rightarrow> (Inl e, w0)
         | Inr q \<Rightarrow>
             (case handle_question_and_answer None q w0 of
                (Inl e, q1, w1) \<Rightarrow> (Inl e, w1)
              | (Inr u, q1, w1) \<Rightarrow> (is_correct_answer q1, w1)))"

fun sequence :: "(error + 'a) list \<Rightarrow> error + 'a list" where
  "sequence [] = Inr []"
| "sequence (x # xs) =
     (case x of
        Inl e \<Rightarrow> Inl e
      | Inr v \<Rightarrow> (case sequence xs of Inl e \<Rightarrow> Inl e | Inr vs \<Rightarrow> Inr (v # vs)))"

definition get_list_of_questions :: "error + QuizQuestion list" where
  "get_list_of_questions =
     sequence
       [new_QuizQuestion ''What does CPU stand for?'' ''Central Processing Unit'' ''title''
          default_ResponseSettings,
        new_QuizQuestion ''What does RAM stand for?'' ''Random Access Memory'' ''title''
          default_ResponseSettings,
        new_QuizQuestion ''What does GPU stand for?'' ''Graphics Processing Unit'' ''title''
          default_ResponseSettings,
        new_MultipleChoiceQuizQuestion ''Which answer is A?'' ''A'' ''title''
          default_ResponseSettings (Some [(''A'', ''Answer A''), (''B'', ''Answer B'')])]"

definition update_score :: "QuizQuestion \<Rightarrow> SimpleQuiz \<Rightarrow> error + SimpleQuiz" where
  "update_score q quiz =
     (case is_correct_answer q of
        Inl e \<Rightarrow> Inl e
      | Inr c \<Rightarrow>
          Inr (if c then quiz\<lparr>score := score quiz + correct_points (response_settings q)\<rparr>
               else quiz))"

text \<open>The \<^verbatim>\<open>for\<close> loop of \<^verbatim>\<open>start_quiz\<close> over \<^verbatim>\<open>enumerate(self.questions)\<close>, from index \<open>num\<close>.\<close>

fun start_quiz_from ::
  "int \<Rightarrow> QuizQuestion list \<Rightarrow> SimpleQuiz \<Rightarrow> world \<Rightarrow> (error + unit) \<times> SimpleQuiz \<times> world" where
  "start_quiz_from num [] quiz w = (Inr (), quiz, w)"
| "start_quiz_from num (q # qs) quiz w =
     (case handle_question_and_answer (Some (num + 1)) q w of
        (Inl e, q1, w1) \<Rightarrow> (Inl e, quiz, w1)
      | (Inr u, q1, w1) \<Rightarrow>
          (case update_score q1 quiz of
             Inl e \<Rightarrow> (Inl e, quiz, w1)
           | Inr quiz1 \<Rightarrow> start_quiz_from (num + 1) qs quiz1 w1))"

definition start_quiz :: "SimpleQuiz \<Rightarrow> world \<Rightarrow> (error + unit) \<times> SimpleQuiz \<times> world" where
  "start_quiz quiz w =
     (case get_list_of_questions of
        Inl e \<Rightarrow> (Inl e, quiz, w)
      | Inr qs \<Rightarrow> start_quiz_from 0 qs quiz w)"

definition display_score :: "SimpleQuiz \<Rightarrow> world \<Rightarrow> (error + unit) \<times> world" where
  "display_score quiz w =
     (case get_list_of_questions of
        Inl e \<Rightarrow> (Inl e, w)
      | Inr qs \<Rightarrow>
          (Inr (),
           print (newline @ ''Score: '' @ str_int (score quiz) @ '' / ''
                    @ str_int (int (length qs))) w))"

definition main :: "world \<Rightarrow> (error + unit) \<times> world" where
  "main w =
     (let quiz = \<lparr>score = 0\<rparr>
      in case startup w of
           (Inl e, w1) \<Rightarrow> (Inl e, w1)
         | (Inr play, w1) \<Rightarrow>
             if play then
               (case start_quiz quiz w1 of
                  (Inl e, quiz1, w2) \<Rightarrow> (Inl e, w2)
                | (Inr u, quiz1, w2) \<Rightarrow> display_score quiz1 w2)
             else (Inr (), w1))"

subsection \<open>Objects used as examples\<close>

text \<open>
  \<^verbatim>\<open>QuizQuestion("What does CPU stand for?", "Central Processing Unit",
  response_settings=ResponseSettings(max_attempts=n))\<close>: the first question of the bank,
  with \<open>n\<close> attempts.
\<close>

definition cpu_question :: "int \<Rightarrow> QuizQuestion" where
  "cpu_question n =
     projr (new_QuizQuestion ''What does CPU stand for?'' ''Central Processing Unit'' ''title''
              (default_ResponseSettings\<lparr>max_attempts := n\<rparr>))"

text \<open>
  \<^verbatim>\<open>MultipleChoiceQuizQuestion("Which answer is A?", correct, mode,
  options=[("A", "Answer A"), ("B", "Answer B")])\<close>: the last question of the bank when
  \<open>correct\<close> is \<^verbatim>\<open>"A"\<close> and \<open>mode\<close> is \<^verbatim>\<open>"title"\<close>.
\<close>

definition choice_question :: "string \<Rightarrow> string \<Rightarrow> QuizQuestion" where
  "choice_question correct mode =
     projr (new_MultipleChoiceQuizQuestion ''Which answer is A?'' correct mode
              default_ResponseSettings (Some [(''A'', ''Answer A''), (''B'', ''Answer B'')]))"

section \<open>Properties\<close>

subsection \<open>The \<^verbatim>\<open>str\<close> methods\<close>

lemma of_char_to_upper: "is_lower c \<Longrightarrow> (of_char (to_upper c) :: nat) = of_char c - 32"
proof -
  have "(of_char c - 32 :: nat) < 256"
    using nat_of_char_less_256 [of c] by arith
  then show "is_lower c \<Longrightarrow> (of_char (to_upper c) :: nat) = of_char c - 32"
    by (simp add: to_upper_def)
qed

lemma of_char_to_lower: "is_upper c \<Longrightarrow> (of_char (to_lower c) :: nat) = of_char c + 32"
  by (simp add: to_lower_def is_upper_def)

lemma to_upper_idem: "to_upper (to_upper c) = to_upper c"
proof (cases "is_lower c")
  case True
  then have "\<not> is_lower (to_upper c)"
    by (simp add: is_lower_def [of "to_upper c"] of_char_to_upper) (auto simp add: is_lower_def)
  then show ?thesis by (simp add: to_upper_def [of "to_upper c"])
next
  case False
  then show ?thesis by (simp add: to_upper_def)
qed

lemma to_lower_idem: "to_lower (to_lower c) = to_lower c"
proof (cases "is_upper c")
  case True
  then have "\<not> is_upper (to_lower c)"
    by (simp add: is_upper_def [of "to_lower c"] of_char_to_lower) (auto simp add: is_upper_def)
  then show ?thesis by (simp add: to_lower_def [of "to_lower c"])
next
  case False
  then show ?thesis by (simp add: to_lower_def)
qed

lemma is_cased_to_upper: "is_cased (to_upper c) = is_cased c"
proof (cases "is_lower c")
  case True
  then have "is_upper (to_upper c)"
    by (simp add: is_upper_def [of "to_upper c"] of_char_to_upper) (auto simp add: is_lower_def)
  with True show ?thesis by (simp add: is_cased_def)
next
  case False
  then show ?thesis by (simp add: to_upper_def)
qed

lemma is_cased_to_lower: "is_cased (to_lower c) = is_cased c"
proof (cases "is_upper c")
  case True
  then have "is_lower (to_lower c)"
    by (simp add: is_lower_def [of "to_lower c"] of_char_to_lower) (auto simp add: is_upper_def)
  with True show ?thesis by (simp add: is_cased_def)
next
  case False
  then show ?thesis by (simp add: to_lower_def)
qed

lemma swap_char_invol: "swap_char (swap_char c) = c"
proof -
  consider (u) "is_upper c" | (l) "\<not> is_upper c" "is_lower c" | (n) "\<not> is_upper c" "\<not> is_lower c"
    by blast
  then show ?thesis
  proof cases
    case u
    then have 1: "\<not> is_upper (to_lower c)" and 2: "is_lower (to_lower c)"
      by (simp_all add: is_upper_def [of "to_lower c"] is_lower_def [of "to_lower c"] of_char_to_lower)
        (simp_all add: is_upper_def)
    have "to_upper (to_lower c) = char_of ((of_char (to_lower c) :: nat) - 32)"
      using 2 by (simp add: to_upper_def)
    also have "\<dots> = c" using u by (simp add: of_char_to_lower)
    finally show ?thesis using u 1 2 by (simp add: swap_char_def)
  next
    case l
    then have 1: "is_upper (to_upper c)"
      by (simp add: is_upper_def [of "to_upper c"] of_char_to_upper) (auto simp add: is_lower_def)
    have "to_lower (to_upper c) = char_of ((of_char (to_upper c) :: nat) + 32)"
      using 1 by (simp add: to_lower_def)
    also have "\<dots> = c" using l by (simp add: of_char_to_upper is_lower_def)
    finally show ?thesis using l 1 by (simp add: swap_char_def)
  next
    case n
    then show ?thesis by (simp add: swap_char_def)
  qed
qed

lemma title_from_idem: "title_from b (title_from b s) = title_from b s"
  by (induction s arbitrary: b) (simp_all add: to_upper_idem to_lower_idem is_cased_to_upper is_cased_to_lower)

lemma str_title_idem: "str_title (str_title s) = str_title s"
  by (simp add: str_title_def title_from_idem)

lemma str_upper_idem: "str_upper (str_upper s) = str_upper s"
  by (simp add: str_upper_def to_upper_idem)

lemma str_lower_idem: "str_lower (str_lower s) = str_lower s"
  by (simp add: str_lower_def to_lower_idem)

lemma str_capitalize_idem: "str_capitalize (str_capitalize s) = str_capitalize s"
  by (cases s) (simp_all add: str_capitalize_def to_upper_idem to_lower_idem)

lemma str_swapcase_invol: "str_swapcase (str_swapcase s) = s"
  by (simp add: str_swapcase_def swap_char_invol map_idI)

lemma swap_char_fixed: "swap_char c = c \<longleftrightarrow> \<not> is_cased c"
proof (cases "is_upper c")
  case True
  then have "(of_char (swap_char c) :: nat) = of_char c + 32"
    by (simp add: swap_char_def of_char_to_lower)
  then have "swap_char c \<noteq> c" by auto
  with True show ?thesis by (simp add: is_cased_def)
next
  case False
  note nu = this
  show ?thesis
  proof (cases "is_lower c")
    case True
    then have "(of_char (swap_char c) :: nat) = of_char c - 32"
      using nu by (simp add: swap_char_def of_char_to_upper)
    moreover have "(97::nat) \<le> of_char c" using True by (simp add: is_lower_def)
    ultimately have "(of_char (swap_char c) :: nat) \<noteq> of_char c" by arith
    then have "swap_char c \<noteq> c" by auto
    with True show ?thesis by (simp add: is_cased_def)
  next
    case False
    with nu show ?thesis by (simp add: swap_char_def is_cased_def)
  qed
qed

lemma str_swapcase_fixed: "str_swapcase x = x \<longleftrightarrow> \<not> list_ex is_cased x"
  by (induction x) (simp_all add: str_swapcase_def swap_char_fixed)

lemma ascii_to_upper: "(of_char c :: nat) < 128 \<Longrightarrow> (of_char (to_upper c) :: nat) < 128"
proof (cases "is_lower c")
  case True
  assume "(of_char c :: nat) < 128"
  with True show ?thesis by (simp add: of_char_to_upper)
next
  case False
  assume "(of_char c :: nat) < 128"
  with False show ?thesis by (simp add: to_upper_def)
qed

lemma ascii_to_lower: "(of_char c :: nat) < 128 \<Longrightarrow> (of_char (to_lower c) :: nat) < 128"
proof (cases "is_upper c")
  case True
  then have "(of_char c :: nat) \<le> 90" by (simp add: is_upper_def)
  with True show ?thesis by (simp add: of_char_to_lower)
next
  case False
  assume "(of_char c :: nat) < 128"
  with False show ?thesis by (simp add: to_lower_def)
qed

lemma ascii_swap_char: "(of_char c :: nat) < 128 \<Longrightarrow> (of_char (swap_char c) :: nat) < 128"
  by (simp add: swap_char_def ascii_to_upper ascii_to_lower)

lemma ascii_title_from: "ascii_str s \<Longrightarrow> ascii_str (title_from b s)"
  by (induction s arbitrary: b) (simp_all add: ascii_str_def ascii_to_upper ascii_to_lower)

lemma ascii_str_methods:
  assumes "ascii_str s"
  shows "ascii_str (str_title s)" and "ascii_str (str_upper s)" and "ascii_str (str_lower s)"
    and "ascii_str (str_capitalize s)" and "ascii_str (str_swapcase s)"
proof -
  show "ascii_str (str_title s)"
    using assms by (simp add: str_title_def ascii_title_from)
  show "ascii_str (str_upper s)"
    using assms by (simp add: str_upper_def ascii_str_def list_all_iff ascii_to_upper)
  show "ascii_str (str_lower s)"
    using assms by (simp add: str_lower_def ascii_str_def list_all_iff ascii_to_lower)
  show "ascii_str (str_capitalize s)"
    using assms
    by (cases s)
      (simp_all add: str_capitalize_def ascii_str_def list_all_iff ascii_to_upper ascii_to_lower)
  show "ascii_str (str_swapcase s)"
    using assms by (simp add: str_swapcase_def ascii_str_def list_all_iff ascii_swap_char)
qed

lemma map_of_transformations:
  "map_of transformations name =
     (if name = ''title'' then Some str_title
      else if name = ''upper'' then Some str_upper
      else if name = ''lower'' then Some str_lower
      else if name = ''capitalize'' then Some str_capitalize
      else if name = ''swapcase'' then Some str_swapcase
      else None)"
  by (simp add: transformations_def)

subsection \<open>Construction\<close>

lemma new_QuizQuestion_eq:
  "new_QuizQuestion qn ca tn rs =
     (case map_of transformations tn of
        None \<Rightarrow> Inl (ValueError (''Invalid transformation: '' @ tn))
      | Some f \<Rightarrow>
          Inr \<lparr>cls = QuizQuestionClass, question = qn, correct_answer = ca, answer = None,
               transformation_name = tn, transformation = f, response_settings = rs,
               attempt_count = 0, options = None\<rparr>)"
  by (simp add: new_QuizQuestion_def QuizQuestion_post_init_def set_transformation_def
      split: option.splits)

lemma new_MultipleChoiceQuizQuestion_eq:
  "new_MultipleChoiceQuizQuestion qn ca tn rs os =
     (case map_of transformations tn of
        None \<Rightarrow> Inl (ValueError (''Invalid transformation: '' @ tn))
      | Some f \<Rightarrow>
          Inr \<lparr>cls = MultipleChoiceQuizQuestionClass, question = qn, correct_answer = ca,
               answer = None, transformation_name = tn, transformation = f,
               response_settings = rs\<lparr>max_attempts := 3\<rparr>, attempt_count = 0,
               options = os\<rparr>)"
  by (simp add: new_MultipleChoiceQuizQuestion_def MultipleChoiceQuizQuestion_post_init_def
      QuizQuestion_post_init_def set_transformation_def split: option.splits)

lemma cpu_question_eq:
  "cpu_question n =
     \<lparr>cls = QuizQuestionClass, question = ''What does CPU stand for?'',
      correct_answer = ''Central Processing Unit'', answer = None,
      transformation_name = ''title'', transformation = str_title,
      response_settings = default_ResponseSettings\<lparr>max_attempts := n\<rparr>,
      attempt_count = 0, options = None\<rparr>"
  by (simp add: cpu_question_def new_QuizQuestion_eq map_of_transformations)

lemma choice_question_eq:
  "map_of transformations mode = Some f \<Longrightarrow>
   choice_question correct mode =
     \<lparr>cls = MultipleChoiceQuizQuestionClass, question = ''Which answer is A?'',
      correct_answer = correct, answer = None,
      transformation_name = mode, transformation = f,
      response_settings = default_ResponseSettings\<lparr>max_attempts := 3\<rparr>,
      attempt_count = 0, options = Some [(''A'', ''Answer A''), (''B'', ''Answer B'')]\<rparr>"
  by (simp add: choice_question_def new_MultipleChoiceQuizQuestion_eq)

text \<open>
  C2, as amended. On ASCII text every transformation that \<^verbatim>\<open>set_transformation\<close> stores
  returns ASCII text again. For a mode other than \<^verbatim>\<open>swapcase\<close> it is idempotent:
  transforming a transformed text changes nothing. \<^verbatim>\<open>swapcase\<close> applied twice gives the
  text back, so it is idempotent on a text exactly when the text holds no letter.
\<close>

theorem transform_twice:
  assumes "set_transformation m q = Inr q'" and "ascii_str x"
  shows "ascii_str (transform q' x) \<and>
         (m \<noteq> ''swapcase'' \<longrightarrow> transform q' (transform q' x) = transform q' x) \<and>
         (m = ''swapcase'' \<longrightarrow>
            transform q' (transform q' x) = x \<and>
            (transform q' (transform q' x) \<noteq> transform q' x \<longleftrightarrow> list_ex is_cased x))"
proof -
  from assms(1) consider
      (title) "m = ''title''" "transformation q' = str_title"
    | (upper) "m = ''upper''" "transformation q' = str_upper"
    | (lower) "m = ''lower''" "transformation q' = str_lower"
    | (capitalize) "m = ''capitalize''" "transformation q' = str_capitalize"
    | (swapcase) "m = ''swapcase''" "transformation q' = str_swapcase"
    by (auto simp: set_transformation_def map_of_transformations split: if_splits)
  then show ?thesis
  proof cases
    case title
    then show ?thesis
      using ascii_str_methods(1) [OF assms(2)] by (simp add: transform_def str_title_idem)
  next
    case upper
    then show ?thesis
      using ascii_str_methods(2) [OF assms(2)] by (simp add: transform_def str_upper_idem)
  next
    case lower
    then show ?thesis
      using ascii_str_methods(3) [OF assms(2)] by (simp add: transform_def str_lower_idem)
  next
    case capitalize
    then show ?thesis
      using ascii_str_methods(4) [OF assms(2)]
      by (simp add: transform_def str_capitalize_idem)
  next
    case swapcase
    have "x \<noteq> str_swapcase x \<longleftrightarrow> list_ex is_cased x"
      using str_swapcase_fixed [of x] by auto
    with swapcase show ?thesis
      using ascii_str_methods(5) [OF assms(2)]
      by (simp add: transform_def str_swapcase_invol)
  qed
qed

theorem transform_twice_witness:
  "set_transformation ''title'' (cpu_question 1) = Inr (cpu_question 1) \<and>
   ascii_str ''central processing unit'' \<and>
   transform (cpu_question 1) ''central processing unit'' = ''Central Processing Unit'' \<and>
   transform (cpu_question 1) (transform (cpu_question 1) ''central processing unit'')
     = transform (cpu_question 1) ''central processing unit'' \<and>
   set_transformation ''swapcase'' (cpu_question 1)
     = Inr ((cpu_question 1)\<lparr>transformation_name := ''swapcase'',
                               transformation := str_swapcase\<rparr>) \<and>
   ascii_str ''Unit 1'' \<and> list_ex is_cased ''Unit 1'' \<and>
   transform ((cpu_question 1)\<lparr>transformation_name := ''swapcase'',
                                transformation := str_swapcase\<rparr>) ''Unit 1'' = ''uNIT 1'' \<and>
   transform ((cpu_question 1)\<lparr>transformation_name := ''swapcase'',
                                transformation := str_swapcase\<rparr>)
     (transform ((cpu_question 1)\<lparr>transformation_name := ''swapcase'',
                                   transformation := str_swapcase\<rparr>) ''Unit 1'')
     = ''Unit 1''"
proof -
  let ?s = "(cpu_question 1)\<lparr>transformation_name := ''swapcase'',
                               transformation := str_swapcase\<rparr>"
  have 1: "set_transformation ''title'' (cpu_question 1) = Inr (cpu_question 1)"
    by (simp add: set_transformation_def map_of_transformations cpu_question_eq)
  have 2: "ascii_str ''central processing unit''"
    by (simp add: ascii_str_def)
  have 3: "transform (cpu_question 1) ''central processing unit'' = ''Central Processing Unit''"
    unfolding cpu_question_eq transform_def by code_simp
  have 4: "set_transformation ''swapcase'' (cpu_question 1) = Inr ?s"
    by (simp add: set_transformation_def map_of_transformations)
  have 5: "ascii_str ''Unit 1''"
    by (simp add: ascii_str_def)
  have 6: "list_ex is_cased ''Unit 1''"
    by code_simp
  have 7: "str_swapcase ''Unit 1'' = ''uNIT 1''"
    by code_simp
  from transform_twice [OF 1 2] transform_twice [OF 4 5] 1 2 3 4 5 6 7 show ?thesis
    by (simp add: transform_def)
qed

text \<open>
  C2 as stated fails for \<^verbatim>\<open>swapcase\<close>: \<^verbatim>\<open>"a".swapcase()\<close> is \<^verbatim>\<open>"A"\<close> and
  \<^verbatim>\<open>"A".swapcase()\<close> is \<^verbatim>\<open>"a"\<close>.
\<close>

theorem swapcase_not_idempotent:
  "map_of transformations ''swapcase'' = Some str_swapcase \<and>
   str_swapcase ''a'' = ''A'' \<and>
   str_swapcase (str_swapcase ''a'') = ''a'' \<and>
   str_swapcase (str_swapcase ''a'') \<noteq> str_swapcase ''a''"
proof -
  have 1: "str_swapcase ''a'' = ''A''" by code_simp
  have 2: "str_swapcase ''A'' = ''a''" by code_simp
  show ?thesis by (simp add: map_of_transformations 1 2)
qed

text \<open>
  C9. \<^verbatim>\<open>set_transformation\<close> succeeds for each of the five recognised names and stores
  the name and its function. For every other name it raises ValueError at once, so
  constructing a question of either class with such a name raises the same error and
  returns no object.
\<close>

theorem set_transformation_unknown_mode:
  "(name \<in> {''title'', ''upper'', ''lower'', ''capitalize'', ''swapcase''} \<longrightarrow>
      (\<exists>f. map_of transformations name = Some f \<and>
           set_transformation name q
             = Inr (q\<lparr>transformation_name := name, transformation := f\<rparr>) \<and>
           (\<exists>q'. new_QuizQuestion qn ca name rs = Inr q' \<and>
                 transformation_name q' = name \<and> transformation q' = f) \<and>
           (\<exists>q'. new_MultipleChoiceQuizQuestion qn ca name rs os = Inr q' \<and>
                 transformation_name q' = name \<and> transformation q' = f))) \<and>
   (name \<notin> {''title'', ''upper'', ''lower'', ''capitalize'', ''swapcase''} \<longrightarrow>
      set_transformation name q = Inl (ValueError (''Invalid transformation: '' @ name)) \<and>
      new_QuizQuestion qn ca name rs = Inl (ValueError (''Invalid transformation: '' @ name)) \<and>
      new_MultipleChoiceQuizQuestion qn ca name rs os
        = Inl (ValueError (''Invalid transformation: '' @ name)))"
  by (simp add: set_transformation_def new_QuizQuestion_eq new_MultipleChoiceQuizQuestion_eq
      map_of_transformations)

theorem set_transformation_unknown_mode_witness:
  "set_transformation ''lower'' (cpu_question 1)
     = Inr ((cpu_question 1)\<lparr>transformation_name := ''lower'', transformation := str_lower\<rparr>) \<and>
   set_transformation ''rot13'' (cpu_question 1)
     = Inl (ValueError ''Invalid transformation: rot13'') \<and>
   new_QuizQuestion ''What does CPU stand for?'' ''Central Processing Unit'' ''rot13''
       default_ResponseSettings
     = Inl (ValueError ''Invalid transformation: rot13'')"
  using set_transformation_unknown_mode [of "''lower''" "cpu_question 1"]
    set_transformation_unknown_mode [of "''rot13''" "cpu_question 1"
      "''What does CPU stand for?''" "''Central Processing Unit''" default_ResponseSettings]
  by (simp add: map_of_transformations)

subsection \<open>The loop\<close>

lemma prompt_question_frame:
  "prompt_question q w = (r, q1, w1) \<Longrightarrow> \<exists>a. q1 = q\<lparr>answer := a\<rparr>"
  by (auto simp: prompt_question_def QuizQuestion_prompt_question_def
      MultipleChoiceQuizQuestion_prompt_question_def Let_def input_def
      split: question_class.splits prod.splits sum.splits if_splits option.splits list.splits
      intro: exI [of _ "answer q"])

lemma validate_response_fst:
  "fst (validate_response q w) = fst (validate_response q w')"
  by (simp add: validate_response_def MultipleChoiceQuizQuestion_validate_response_def
      split: question_class.splits sum.splits option.splits)

lemma retry_while_stop:
  "v \<or> \<not> attempt_count q < m \<Longrightarrow> retry_while m v q w = (Inr v, q, w)"
  by (subst retry_while.simps) auto

lemma retry_while_step:
  "\<not> v \<Longrightarrow> attempt_count q < m \<Longrightarrow>
   retry_while m v q w =
     (case prompt_question q w of
        (Inl e, q1, w1) \<Rightarrow> (Inl e, q1, w1)
      | (Inr u, q1, w1) \<Rightarrow>
          (case validate_response (increment_attempts q1) w1 of
             (Inl e, w2) \<Rightarrow> (Inl e, increment_attempts q1, w2)
           | (Inr v', w2) \<Rightarrow> retry_while m v' (increment_attempts q1) w2))"
  by (subst retry_while.simps) (simp add: Let_def split: prod.splits sum.splits)

lemma retry_while_frame:
  "retry_while m v q w = (r, q', w') \<Longrightarrow>
     (\<exists>a c. q' = q\<lparr>answer := a, attempt_count := c\<rparr>) \<and>
     attempt_count q \<le> attempt_count q' \<and>
     (attempt_count q \<le> m \<longrightarrow> attempt_count q' \<le> m)"
proof (induction m v q w arbitrary: r q' w' rule: retry_while.induct)
  case (1 m v q w)
  show ?case
  proof (cases "\<not> v \<and> attempt_count q < m")
    case False
    with "1.prems" have "q' = q"
      by (simp add: retry_while_stop)
    then have "q' = q\<lparr>answer := answer q, attempt_count := attempt_count q\<rparr>"
      by simp
    with \<open>q' = q\<close> show ?thesis by blast
  next
    case True
    then have nv: "\<not> v" and lt: "attempt_count q < m" by simp_all
    note step = retry_while_step [OF nv lt, of w]
    obtain r1 q1 w1 where p: "prompt_question q w = (r1, q1, w1)"
      by (cases "prompt_question q w") auto
    from prompt_question_frame [OF p] obtain a1 where q1: "q1 = q\<lparr>answer := a1\<rparr>" ..
    show ?thesis
    proof (cases r1)
      case (Inl e)
      with p "1.prems" have "q' = q1"
        by (simp add: step)
      with q1 have "q' = q\<lparr>answer := a1, attempt_count := attempt_count q\<rparr>"
        and "attempt_count q' = attempt_count q"
        by simp_all
      then show ?thesis by (metis order_refl)
    next
      case (Inr u)
      note r1 = this
      obtain r2 w2 where val: "validate_response (increment_attempts q1) w1 = (r2, w2)"
        by (cases "validate_response (increment_attempts q1) w1") auto
      show ?thesis
      proof (cases r2)
        case (Inl e)
        with p r1 val "1.prems" have "q' = increment_attempts q1"
          by (simp add: step)
        with q1 have "q' = q\<lparr>answer := a1, attempt_count := attempt_count q + 1\<rparr>"
          and "attempt_count q' = attempt_count q + 1"
          by (simp_all add: increment_attempts_def)
        moreover from this lt have "attempt_count q \<le> attempt_count q'" "attempt_count q' \<le> m"
          by simp_all
        ultimately show ?thesis by blast
      next
        case (Inr v2)
        with p r1 val "1.prems"
        have rec: "retry_while m v2 (increment_attempts q1) w2 = (r, q', w')"
          by (simp add: step)
        from "1.IH" [OF True p [symmetric] r1 refl refl val [symmetric] Inr rec]
        obtain a c where "q' = (increment_attempts q1)\<lparr>answer := a, attempt_count := c\<rparr>"
          and le: "attempt_count (increment_attempts q1) \<le> attempt_count q'"
          and bd: "attempt_count (increment_attempts q1) \<le> m \<longrightarrow> attempt_count q' \<le> m"
          by blast
        then have "q' = q\<lparr>answer := a, attempt_count := c\<rparr>"
          using q1 by (simp add: increment_attempts_def)
        moreover have "attempt_count q \<le> attempt_count q'"
          using le q1 by (simp add: increment_attempts_def)
        moreover have "attempt_count q' \<le> m"
          using bd lt q1 by (simp add: increment_attempts_def)
        ultimately show ?thesis by blast
      qed
    qed
  qed
qed

lemma retry_while_exit:
  "retry_while m v q w = (Inr v', q', w') \<Longrightarrow> fst (validate_response q w) = Inr v \<Longrightarrow>
     fst (validate_response q' w') = Inr v' \<and> (\<not> v' \<longrightarrow> m \<le> attempt_count q')"
proof (induction m v q w arbitrary: v' q' w' rule: retry_while.induct)
  case (1 m v q w)
  show ?case
  proof (cases "\<not> v \<and> attempt_count q < m")
    case False
    with "1.prems" show ?thesis
      by (auto simp: retry_while_stop)
  next
    case True
    then have nv: "\<not> v" and lt: "attempt_count q < m" by simp_all
    note step = retry_while_step [OF nv lt, of w]
    obtain r1 q1 w1 where p: "prompt_question q w = (r1, q1, w1)"
      by (cases "prompt_question q w") auto
    obtain r2 w2 where val: "validate_response (increment_attempts q1) w1 = (r2, w2)"
      by (cases "validate_response (increment_attempts q1) w1") auto
    from p val "1.prems"(1) obtain u v2 where r1: "r1 = Inr u" and r2: "r2 = Inr v2"
      and rec: "retry_while m v2 (increment_attempts q1) w2 = (Inr v', q', w')"
      by (cases r1; cases r2) (simp_all add: step)
    have "fst (validate_response (increment_attempts q1) w2) = Inr v2"
      using val r2 validate_response_fst [of "increment_attempts q1" w2 w1] by simp
    with "1.IH" [OF True p [symmetric] r1 refl refl val [symmetric] r2 rec]
    show ?thesis by simp
  qed
qed

lemma print_question_header_frame:
  "print_question_header n q w = (q0, w0) \<Longrightarrow>
     (\<exists>t. q0 = q\<lparr>question := t\<rparr>) \<and> stdin w0 = stdin w"
  by (auto simp: print_question_header_def print_def Let_def
      split: if_splits option.splits intro: exI [of _ "question q"])

lemma handle_question_and_answer_frame:
  assumes "handle_question_and_answer n q w = (r, q', w')"
  shows "\<exists>t a c. q' = q\<lparr>question := t, answer := a, attempt_count := c\<rparr>"
proof -
  obtain q0 w0 where h: "print_question_header n q w = (q0, w0)"
    by (cases "print_question_header n q w") auto
  from print_question_header_frame [OF h] obtain t where q0: "q0 = q\<lparr>question := t\<rparr>"
    by blast
  obtain r1 q1 w1 where p: "prompt_question q0 w0 = (r1, q1, w1)"
    by (cases "prompt_question q0 w0") auto
  from prompt_question_frame [OF p] obtain a1 where q1: "q1 = q0\<lparr>answer := a1\<rparr>" ..
  show ?thesis
  proof (cases r1)
    case (Inl e)
    with assms h p have "q' = q1" by (simp add: handle_question_and_answer_def)
    with q0 q1 have "q' = q\<lparr>question := t, answer := a1, attempt_count := attempt_count q\<rparr>"
      by simp
    then show ?thesis by blast
  next
    case (Inr u)
    note r1 = this
    obtain r2 w2 where val: "validate_response (increment_attempts q1) w1 = (r2, w2)"
      by (cases "validate_response (increment_attempts q1) w1") auto
    show ?thesis
    proof (cases r2)
      case (Inl e)
      with assms h p r1 val have "q' = increment_attempts q1"
        by (simp add: handle_question_and_answer_def Let_def)
      with q0 q1
      have "q' = q\<lparr>question := t, answer := a1, attempt_count := attempt_count q + 1\<rparr>"
        by (simp add: increment_attempts_def)
      then show ?thesis by blast
    next
      case (Inr v)
      obtain r3 q3 w3 where loop:
        "retry_while (max_attempts (response_settings (increment_attempts q1))) v
           (increment_attempts q1) w2 = (r3, q3, w3)"
        by (metis prod_cases3)
      from assms h p r1 val Inr loop have "q' = q3"
        by (auto simp: handle_question_and_answer_def Let_def split: sum.splits)
      moreover from retry_while_frame [OF loop] obtain a c
        where "q3 = (increment_attempts q1)\<lparr>answer := a, attempt_count := c\<rparr>"
        by blast
      ultimately have "q' = q\<lparr>question := t, answer := a, attempt_count := c\<rparr>"
        using q0 q1 by (simp add: increment_attempts_def)
      then show ?thesis by blast
    qed
  qed
qed

text \<open>
  C3, as amended. A question that enters \<^verbatim>\<open>handle_question_and_answer\<close> with fewer
  attempts than \<^verbatim>\<open>max_attempts\<close> (a new question whose \<^verbatim>\<open>max_attempts\<close> is at least 1)
  leaves it, normally or by an exception, with \<open>attempt_count \<le> max_attempts\<close>. When the
  call returns, the last answer either passes validation (acceptance) or fails it
  (exhaustion); after exhaustion \<open>attempt_count = max_attempts\<close> and the notice of line 94
  has been printed. The converse is not claimed.
\<close>

theorem attempt_count_bounded:
  assumes "handle_question_and_answer n q w = (r, q', w')"
    and "attempt_count q < max_attempts (response_settings q)"
  shows "attempt_count q' \<le> max_attempts (response_settings q') \<and>
         (r = Inr () \<longrightarrow>
            (\<exists>v. fst (validate_response q' w') = Inr v \<and>
                 (\<not> v \<longrightarrow> attempt_count q' = max_attempts (response_settings q') \<and>
                    Print (''Maximum number of attempts (''
                             @ str_int (max_attempts (response_settings q'))
                             @ '') reached for this question'') \<in> set (stdout w'))))"
proof -
  obtain q0 w0 where h: "print_question_header n q w = (q0, w0)"
    by (cases "print_question_header n q w") auto
  from print_question_header_frame [OF h] obtain t where q0: "q0 = q\<lparr>question := t\<rparr>"
    by blast
  obtain r1 q1 w1 where p: "prompt_question q0 w0 = (r1, q1, w1)"
    by (cases "prompt_question q0 w0") auto
  from prompt_question_frame [OF p] obtain a1 where q1: "q1 = q0\<lparr>answer := a1\<rparr>" ..
  let ?q2 = "increment_attempts q1"
  let ?m = "max_attempts (response_settings q)"
  have q2: "attempt_count ?q2 \<le> ?m" "max_attempts (response_settings ?q2) = ?m"
    using q0 q1 assms(2) by (simp_all add: increment_attempts_def)
  show ?thesis
  proof (cases r1)
    case (Inl e)
    with assms h p have "q' = q1" "r = Inl e" by (simp_all add: handle_question_and_answer_def)
    with q0 q1 assms(2) show ?thesis by auto
  next
    case (Inr u)
    note r1 = this
    obtain r2 w2 where val: "validate_response ?q2 w1 = (r2, w2)"
      by (cases "validate_response ?q2 w1") auto
    show ?thesis
    proof (cases r2)
      case (Inl e)
      with assms h p r1 val have "q' = ?q2" "r = Inl e"
        by (simp_all add: handle_question_and_answer_def Let_def)
      with q2 show ?thesis by simp
    next
      case (Inr v)
      obtain r3 q3 w3 where loop: "retry_while ?m v ?q2 w2 = (r3, q3, w3)"
        by (metis prod_cases3)
      from retry_while_frame [OF loop] obtain a c
        where "q3 = ?q2\<lparr>answer := a, attempt_count := c\<rparr>" and "attempt_count q3 \<le> ?m"
        using q2 by blast
      with q2 have q3: "attempt_count q3 \<le> ?m" "max_attempts (response_settings q3) = ?m"
        by (simp_all add: increment_attempts_def)
      from assms h p r1 val Inr loop q2 have q': "q' = q3"
        by (auto simp: handle_question_and_answer_def Let_def split: sum.splits)
      show ?thesis
      proof (cases r3)
        case (Inl e)
        with assms h p r1 val Inr loop q2 have "r = Inl e"
          by (simp add: handle_question_and_answer_def Let_def)
        with q' q3 show ?thesis by simp
      next
        case (Inr v')
        have "fst (validate_response ?q2 w2) = Inr v"
          using val \<open>r2 = Inr v\<close> validate_response_fst [of ?q2 w2 w1] by simp
        from retry_while_exit [OF loop [unfolded Inr] this]
        have ex: "fst (validate_response q3 w3) = Inr v'" "\<not> v' \<longrightarrow> ?m \<le> attempt_count q3"
          by simp_all
        have v': "fst (validate_response q' w') = Inr v'"
          using ex(1) q' validate_response_fst [of q3 w' w3] by simp
        have "\<not> v' \<Longrightarrow> r = Inr () \<Longrightarrow>
            Print (''Maximum number of attempts ('' @ str_int ?m
                     @ '') reached for this question'') \<in> set (stdout w')"
          using assms(1) h p r1 val \<open>r2 = Inr v\<close> loop Inr q2 q3 ex(2)
          by (auto simp: handle_question_and_answer_def Let_def print_def split: sum.splits)
        with v' ex(2) q' q3 show ?thesis by auto
      qed
    qed
  qed
qed

subsection \<open>Running the examples\<close>

lemmas run_defs =
  handle_question_and_answer_def print_question_header_def prompt_question_def
  QuizQuestion_prompt_question_def MultipleChoiceQuizQuestion_prompt_question_def
  input_def print_def increment_attempts_def validate_response_def
  QuizQuestion_validate_response_def MultipleChoiceQuizQuestion_validate_response_def
  valid_possible_answers_def no_answer_def no_options_def is_correct_answer_def
  transform_def default_ResponseSettings_def retry_while_stop retry_while_step Let_def

lemma str_title_examples:
  "str_title ''A'' = ''A''" "str_title ''B'' = ''B''" "str_title ''a'' = ''A''"
  "str_title ''C'' = ''C''" "str_title ''Y'' = ''Y''" "str_title ''N'' = ''N''"
  "str_title ''cpu'' = ''Cpu''"
  "str_title ''Central Processing Unit'' = ''Central Processing Unit''"
  "str_title [] = []"
  by code_simp+

lemma str_int_examples:
  "str_int 1 = ''1''" "str_int 2 = ''2''" "str_int 3 = ''3''" "str_int 4 = ''4''"
  "str_int 0 = ''0''"
  by code_simp+

text \<open>
  C3 as stated fails: the first question of the bank has \<^verbatim>\<open>max_attempts = 1\<close>, and any
  answer that is not empty is accepted on its first attempt, so the count equals the
  limit after an acceptance. With \<^verbatim>\<open>max_attempts = 0\<close> the count exceeds the limit.
\<close>

theorem accepted_on_last_attempt:
  "handle_question_and_answer None (cpu_question 1) \<lparr>stdin = [''cpu''], stdout = []\<rparr>
     = (Inr (), (cpu_question 1)\<lparr>answer := Some ''cpu'', attempt_count := 1\<rparr>,
        \<lparr>stdin = [],
         stdout = [Print [], Input (''What does CPU stand for?'' @ newline @ ''> ''),
                   Print ''Incorrect.'']\<rparr>) \<and>
   max_attempts (response_settings (cpu_question 1)) = 1 \<and>
   validate_response ((cpu_question 1)\<lparr>answer := Some ''cpu'', attempt_count := 1\<rparr>)
       \<lparr>stdin = [], stdout = []\<rparr>
     = (Inr True, \<lparr>stdin = [], stdout = []\<rparr>) \<and>
   max_attempts (response_settings (cpu_question 0)) = 0 \<and>
   handle_question_and_answer None (cpu_question 0) \<lparr>stdin = [''cpu''], stdout = []\<rparr>
     = (Inr (), (cpu_question 0)\<lparr>answer := Some ''cpu'', attempt_count := 1\<rparr>,
        \<lparr>stdin = [],
         stdout = [Print [], Input (''What does CPU stand for?'' @ newline @ ''> ''),
                   Print ''Incorrect.'']\<rparr>)"
  by (simp add: cpu_question_eq run_defs str_title_examples)

lemma choice_question_exhausted:
  "handle_question_and_answer None (choice_question ''A'' ''title'')
       \<lparr>stdin = [''C'', ''C'', ''C''], stdout = []\<rparr>
     = (Inr (), (choice_question ''A'' ''title'')\<lparr>answer := Some ''C'', attempt_count := 3\<rparr>,
        \<lparr>stdin = [],
         stdout =
           [Print [],
            Input (''Which answer is A?'' @ newline @ ''  A: Answer A'' @ newline
                     @ ''  B: Answer B'' @ newline @ ''> ''),
            InvalidAnswerNotice ''C'' [''A'', ''B''] 2,
            Input (''Which answer is A?'' @ newline @ ''  A: Answer A'' @ newline
                     @ ''  B: Answer B'' @ newline @ ''> ''),
            InvalidAnswerNotice ''C'' [''A'', ''B''] 1,
            Input (''Which answer is A?'' @ newline @ ''  A: Answer A'' @ newline
                     @ ''  B: Answer B'' @ newline @ ''> ''),
            InvalidAnswerNotice ''C'' [''A'', ''B''] 0,
            Print ''Maximum number of attempts (3) reached for this question'',
            Print ''Incorrect.'']\<rparr>)"
  by (simp add: choice_question_eq map_of_transformations run_defs str_title_examples
      str_int_examples)

theorem attempt_count_bounded_witness:
  "attempt_count (choice_question ''A'' ''title'')
     < max_attempts (response_settings (choice_question ''A'' ''title'')) \<and>
   fst (handle_question_and_answer None (choice_question ''A'' ''title'')
       \<lparr>stdin = [''C'', ''C'', ''C''], stdout = []\<rparr>) = Inr () \<and>
   attempt_count (fst (snd (handle_question_and_answer None (choice_question ''A'' ''title'')
       \<lparr>stdin = [''C'', ''C'', ''C''], stdout = []\<rparr>))) = 3 \<and>
   max_attempts (response_settings (choice_question ''A'' ''title'')) = 3 \<and>
   fst (validate_response
          ((choice_question ''A'' ''title'')\<lparr>answer := Some ''C'', attempt_count := 3\<rparr>)
          \<lparr>stdin = [], stdout = []\<rparr>) = Inr False"
proof -
  have hyp: "attempt_count (choice_question ''A'' ''title'')
     < max_attempts (response_settings (choice_question ''A'' ''title''))"
    by (simp add: choice_question_eq map_of_transformations)
  from attempt_count_bounded [OF choice_question_exhausted hyp] hyp
  show ?thesis
    by (simp add: choice_question_exhausted)
      (simp add: choice_question_eq map_of_transformations run_defs str_title_examples)
qed

subsection \<open>Empty answers\<close>

text \<open>
  C1, as amended. For every question of the base class, an empty response to the first
  prompt consumes one attempt and then \<^verbatim>\<open>validate_response\<close> raises ValueError, which
  leaves \<^verbatim>\<open>handle_question_and_answer\<close>: whatever \<^verbatim>\<open>max_attempts\<close> is, nothing more is
  read and nothing is printed after the prompt (no retry, no notice, no feedback).
\<close>

theorem empty_answer_raises:
  assumes "cls q = QuizQuestionClass" and "stdin w = [] # rest"
  shows "\<exists>msg q' w'.
           handle_question_and_answer n q w = (Inl (ValueError msg), q', w') \<and>
           attempt_count q' = attempt_count q + 1 \<and> answer q' = Some [] \<and>
           stdin w' = rest \<and>
           stdout w' = stdout (snd (print_question_header n q w))
                         @ [Input (question q' @ newline @ ''> '')]"
  using assms
  by (simp add: run_defs split: option.splits)

text \<open>
  C1 as stated fails: with \<^verbatim>\<open>max_attempts = 2\<close> and two empty inputs the call raises after
  the first one, with \<open>attempt_count = 1\<close> and the second input unread.
\<close>

theorem two_empty_answers_raise:
  "max_attempts (response_settings (cpu_question 2)) = 2 \<and>
   handle_question_and_answer None (cpu_question 2) \<lparr>stdin = [[], []], stdout = []\<rparr>
     = (Inl (ValueError ''No answer provided for What does CPU stand for?''),
        (cpu_question 2)\<lparr>answer := Some [], attempt_count := 1\<rparr>,
        \<lparr>stdin = [[]],
         stdout = [Print [], Input (''What does CPU stand for?'' @ newline @ ''> '')]\<rparr>)"
  by (simp add: cpu_question_eq run_defs)

theorem empty_answer_raises_witness:
  "cls (cpu_question 1) = QuizQuestionClass \<and>
   fst (handle_question_and_answer (Some 1) (cpu_question 1) \<lparr>stdin = [[]], stdout = []\<rparr>)
     = Inl (ValueError ''No answer provided for 1. What does CPU stand for?'') \<and>
   attempt_count (fst (snd (handle_question_and_answer (Some 1) (cpu_question 1)
       \<lparr>stdin = [[]], stdout = []\<rparr>))) = 1"
proof -
  have 1: "cls (cpu_question 1) = QuizQuestionClass"
    by (simp add: cpu_question_eq)
  have 2: "stdin \<lparr>stdin = [[]], stdout = []\<rparr> = [] # []"
    by simp
  from empty_answer_raises [OF 1 2, of "Some 1"] 1 show ?thesis
    by (auto simp: cpu_question_eq run_defs str_int_examples)
qed

subsection \<open>Prompting without options\<close>

text \<open>
  C10. For a multiple choice question whose \<^verbatim>\<open>options\<close> is \<^verbatim>\<open>None\<close>,
  \<^verbatim>\<open>prompt_question\<close> never completes: the base prompt is written and a line is read and
  stored as the answer, then rendering the options raises TypeError. (When no line is
  left to read, the base prompt itself raises EOFError.)
\<close>

theorem prompt_without_options:
  assumes "cls q = MultipleChoiceQuizQuestionClass" and "options q = None"
  shows "prompt_question q w =
           (case stdin w of
              [] \<Rightarrow> (Inl EOFError, q, w\<lparr>stdout := stdout w @ [Input (question q @ newline @ ''> '')]\<rparr>)
            | l # ls \<Rightarrow>
                (Inl TypeError, q\<lparr>answer := Some l\<rparr>,
                 w\<lparr>stdin := ls, stdout := stdout w @ [Input (question q @ newline @ ''> '')]\<rparr>))"
  using assms by (simp add: run_defs split: list.splits)

subsection \<open>Validation of a multiple choice answer\<close>


text \<open>The question of \<^verbatim>\<open>startup\<close> before and after its two \<^verbatim>\<open>add_option\<close> calls.\<close>

lemma unasked_question_eq:
  "new_MultipleChoiceQuizQuestion ''Do you want to play?'' ''Y'' ''title''
       startup_response_settings None
     = Inr \<lparr>cls = MultipleChoiceQuizQuestionClass, question = ''Do you want to play?'',
            correct_answer = ''Y'', answer = None, transformation_name = ''title'',
            transformation = str_title,
            response_settings = startup_response_settings\<lparr>max_attempts := 3\<rparr>,
            attempt_count = 0, options = None\<rparr>"
  by (simp add: new_MultipleChoiceQuizQuestion_eq map_of_transformations)

lemma startup_question_eq:
  "startup_question
     = Inr \<lparr>cls = MultipleChoiceQuizQuestionClass, question = ''Do you want to play?'',
            correct_answer = ''Y'', answer = None, transformation_name = ''title'',
            transformation = str_title,
            response_settings = startup_response_settings\<lparr>max_attempts := 3\<rparr>,
            attempt_count = 0, options = Some [(''Y'', ''Yes''), (''N'', ''No'')]\<rparr>"
  by (simp add: startup_question_def unasked_question_eq add_option_def no_options_def)

theorem prompt_without_options_witness:
  "cls (projr (new_MultipleChoiceQuizQuestion ''Do you want to play?'' ''Y'' ''title''
          startup_response_settings None)) = MultipleChoiceQuizQuestionClass \<and>
   options (projr (new_MultipleChoiceQuizQuestion ''Do you want to play?'' ''Y'' ''title''
          startup_response_settings None)) = None \<and>
   fst (prompt_question
          (projr (new_MultipleChoiceQuizQuestion ''Do you want to play?'' ''Y'' ''title''
             startup_response_settings None))
          \<lparr>stdin = [''Y''], stdout = []\<rparr>) = Inl TypeError \<and>
   snd (snd (prompt_question
          (projr (new_MultipleChoiceQuizQuestion ''Do you want to play?'' ''Y'' ''title''
             startup_response_settings None))
          \<lparr>stdin = [''Y''], stdout = []\<rparr>))
     = \<lparr>stdin = [], stdout = [Input (''Do you want to play?'' @ newline @ ''> '')]\<rparr>"
proof -
  let ?q = "projr (new_MultipleChoiceQuizQuestion ''Do you want to play?'' ''Y'' ''title''
          startup_response_settings None)"
  have 1: "cls ?q = MultipleChoiceQuizQuestionClass" and 2: "options ?q = None"
    by (simp_all add: unasked_question_eq)
  from prompt_without_options [OF 1 2, of "\<lparr>stdin = [''Y''], stdout = []\<rparr>"] 1 2
  show ?thesis by (simp add: unasked_question_eq)
qed




text \<open>
  C4. Line 135 looks the correct answer up as written, not transformed, among the
  transformed option keys. With correct answer \<^verbatim>\<open>"a"\<close>, option key \<^verbatim>\<open>"A"\<close> and mode
  \<^verbatim>\<open>title\<close>, the transformed correct answer \<^verbatim>\<open>"A"\<close> is a valid answer, and validation of
  the answer \<^verbatim>\<open>"A"\<close> still raises ValueError, after the attempt was counted.
\<close>

theorem correct_answer_compared_raw:
  "new_MultipleChoiceQuizQuestion ''Which answer is A?'' ''a'' ''title''
       default_ResponseSettings (Some [(''A'', ''Answer A''), (''B'', ''Answer B'')])
     = Inr (choice_question ''a'' ''title'') \<and>
   valid_possible_answers (choice_question ''a'' ''title'') = Inr [''A'', ''B''] \<and>
   transform (choice_question ''a'' ''title'') (correct_answer (choice_question ''a'' ''title''))
     = ''A'' \<and>
   handle_question_and_answer None (choice_question ''a'' ''title'')
       \<lparr>stdin = [''A''], stdout = []\<rparr>
     = (Inl (ValueError ''Correct answer is not available''),
        (choice_question ''a'' ''title'')\<lparr>answer := Some ''A'', attempt_count := 1\<rparr>,
        \<lparr>stdin = [],
         stdout =
           [Print [],
            Input (''Which answer is A?'' @ newline @ ''  A: Answer A'' @ newline
                     @ ''  B: Answer B'' @ newline @ ''> '')]\<rparr>)"
  by (simp add: choice_question_eq new_MultipleChoiceQuizQuestion_eq map_of_transformations
      run_defs str_title_examples)

subsection \<open>A multiple choice answer in lower case\<close>

text \<open>
  C6. A multiple choice question built with options \<^verbatim>\<open>[("A", "Answer A"), ("B", "Answer B")]\<close>,
  correct answer \<^verbatim>\<open>"A"\<close> and mode \<^verbatim>\<open>title\<close> (any question text and settings), given the
  input \<^verbatim>\<open>"a"\<close>: the answer is transformed to the option key \<^verbatim>\<open>"A"\<close>, passes validation on
  the first attempt, and \<^verbatim>\<open>is_correct_answer\<close>, which transforms both sides with the same
  function, is \<^verbatim>\<open>True\<close>; the message for a correct answer is the last line printed.
\<close>

theorem lower_case_key_accepted:
  assumes "new_MultipleChoiceQuizQuestion qn ''A'' ''title'' rs
             (Some [(''A'', ''Answer A''), (''B'', ''Answer B'')]) = Inr q"
    and "stdin w = ''a'' # rest"
  shows "\<exists>q' w'.
           handle_question_and_answer n q w = (Inr (), q', w') \<and>
           attempt_count q' = 1 \<and> answer q' = Some ''a'' \<and>
           transform q' ''a'' = ''A'' \<and> transform q' (correct_answer q') = ''A'' \<and>
           validate_response q' w' = (Inr True, w') \<and>
           is_correct_answer q' = Inr True \<and>
           stdin w' = rest \<and> last (stdout w') = Print (correct_reponse rs)"
proof -
  define t where
    "t = (case n of None \<Rightarrow> qn | Some k \<Rightarrow> if k \<noteq> 0 then str_int k @ ''. '' @ qn else qn)"
  have q: "q = \<lparr>cls = MultipleChoiceQuizQuestionClass, question = qn,
         correct_answer = ''A'', answer = None,
         transformation_name = ''title'', transformation = str_title,
         response_settings = rs\<lparr>max_attempts := 3\<rparr>, attempt_count = 0,
         options = Some [(''A'', ''Answer A''), (''B'', ''Answer B'')]\<rparr>"
    using assms(1) by (simp add: new_MultipleChoiceQuizQuestion_eq map_of_transformations)
  have run: "handle_question_and_answer n q w =
      (Inr (), q\<lparr>question := t, answer := Some ''a'', attempt_count := 1\<rparr>,
       w\<lparr>stdin := rest,
         stdout := stdout w @
           [Print [],
            Input (t @ newline @ ''  A: Answer A'' @ newline @ ''  B: Answer B''
                     @ newline @ ''> ''),
            Print (correct_reponse rs)]\<rparr>)"
    using assms(2)
    by (simp add: q t_def run_defs str_title_examples split: option.splits)
  show ?thesis
    unfolding run
    by (simp add: q run_defs str_title_examples)
qed

theorem lower_case_key_accepted_witness:
  "handle_question_and_answer None (choice_question ''A'' ''title'')
       \<lparr>stdin = [''a''], stdout = []\<rparr>
     = (Inr (), (choice_question ''A'' ''title'')\<lparr>answer := Some ''a'', attempt_count := 1\<rparr>,
        \<lparr>stdin = [],
         stdout =
           [Print [],
            Input (''Which answer is A?'' @ newline @ ''  A: Answer A'' @ newline
                     @ ''  B: Answer B'' @ newline @ ''> ''),
            Print ''Correct!'']\<rparr>) \<and>
   is_correct_answer ((choice_question ''A'' ''title'')\<lparr>answer := Some ''a'', attempt_count := 1\<rparr>)
     = Inr True"
proof -
  have 1: "new_MultipleChoiceQuizQuestion ''Which answer is A?'' ''A'' ''title''
       default_ResponseSettings (Some [(''A'', ''Answer A''), (''B'', ''Answer B'')])
     = Inr (choice_question ''A'' ''title'')"
    by (simp add: choice_question_eq new_MultipleChoiceQuizQuestion_eq map_of_transformations)
  have 2: "stdin \<lparr>stdin = [''a''], stdout = []\<rparr> = ''a'' # []"
    by simp
  from lower_case_key_accepted [OF 1 2, of None]
  show ?thesis
    by (simp add: choice_question_eq map_of_transformations run_defs str_title_examples)
qed

subsection \<open>The attempts of a multiple choice question\<close>

lemma startup_three_invalid:
  "startup \<lparr>stdin = [''x'', ''x'', ''x'', ''Y''], stdout = []\<rparr>
     = (Inr False,
        \<lparr>stdin = [''Y''],
         stdout =
           [Print ''Welcome to my computer quiz!'', Print [],
            Input (''Do you want to play?'' @ newline @ ''  Y: Yes'' @ newline
                     @ ''  N: No'' @ newline @ ''> ''),
            InvalidAnswerNotice ''x'' [''Y'', ''N''] 2,
            Input (''Do you want to play?'' @ newline @ ''  Y: Yes'' @ newline
                     @ ''  N: No'' @ newline @ ''> ''),
            InvalidAnswerNotice ''x'' [''Y'', ''N''] 1,
            Input (''Do you want to play?'' @ newline @ ''  Y: Yes'' @ newline
                     @ ''  N: No'' @ newline @ ''> ''),
            InvalidAnswerNotice ''x'' [''Y'', ''N''] 0,
            Print ''Maximum number of attempts (3) reached for this question'',
            Print ''Another time then! Goodbye :)'']\<rparr>)"
proof -
  have x: "str_title ''x'' = ''X''" by code_simp
  show ?thesis
    by (simp add: startup_def startup_question_eq startup_response_settings_def run_defs
        str_title_examples str_int_examples x)
qed

text \<open>
  C5. Constructing a multiple choice question returns the settings passed by the caller
  with \<^verbatim>\<open>max_attempts\<close> overwritten by 3 and every other field as passed. The question of
  \<^verbatim>\<open>startup\<close>, built with \<^verbatim>\<open>max_attempts=2\<close>, runs with 3: three answers that are no
  option are asked for before the notice of 3 attempts is printed.
\<close>

theorem multiple_choice_max_attempts:
  "(new_MultipleChoiceQuizQuestion qn ca tn rs os = Inr q \<longrightarrow>
      response_settings q = rs\<lparr>max_attempts := 3\<rparr>) \<and>
   max_attempts startup_response_settings = 2 \<and>
   (\<exists>sq. startup_question = Inr sq \<and>
         response_settings sq = startup_response_settings\<lparr>max_attempts := 3\<rparr>) \<and>
   startup \<lparr>stdin = [''x'', ''x'', ''x'', ''Y''], stdout = []\<rparr>
     = (Inr False,
        \<lparr>stdin = [''Y''],
         stdout =
           [Print ''Welcome to my computer quiz!'', Print [],
            Input (''Do you want to play?'' @ newline @ ''  Y: Yes'' @ newline
                     @ ''  N: No'' @ newline @ ''> ''),
            InvalidAnswerNotice ''x'' [''Y'', ''N''] 2,
            Input (''Do you want to play?'' @ newline @ ''  Y: Yes'' @ newline
                     @ ''  N: No'' @ newline @ ''> ''),
            InvalidAnswerNotice ''x'' [''Y'', ''N''] 1,
            Input (''Do you want to play?'' @ newline @ ''  Y: Yes'' @ newline
                     @ ''  N: No'' @ newline @ ''> ''),
            InvalidAnswerNotice ''x'' [''Y'', ''N''] 0,
            Print ''Maximum number of attempts (3) reached for this question'',
            Print ''Another time then! Goodbye :)'']\<rparr>)"
proof -
  have "new_MultipleChoiceQuizQuestion qn ca tn rs os = Inr q \<longrightarrow>
      response_settings q = rs\<lparr>max_attempts := 3\<rparr>"
    by (auto simp: new_MultipleChoiceQuizQuestion_eq split: option.splits)
  moreover have "max_attempts startup_response_settings = 2"
    by (simp add: startup_response_settings_def)
  moreover have "\<exists>sq. startup_question = Inr sq \<and>
         response_settings sq = startup_response_settings\<lparr>max_attempts := 3\<rparr>"
    by (simp add: startup_question_eq)
  ultimately show ?thesis
    using startup_three_invalid by simp
qed

theorem multiple_choice_max_attempts_witness:
  "new_MultipleChoiceQuizQuestion ''Which answer is A?'' ''A'' ''title''
       (default_ResponseSettings\<lparr>max_attempts := 7\<rparr>)
       (Some [(''A'', ''Answer A''), (''B'', ''Answer B'')])
     = Inr (choice_question ''A'' ''title'') \<and>
   response_settings (choice_question ''A'' ''title'')
     = \<lparr>correct_reponse = ''Correct!'', incorrect_response = ''Incorrect.'',
        max_attempts = 3, correct_points = 1\<rparr>"
proof -
  have 1: "new_MultipleChoiceQuizQuestion ''Which answer is A?'' ''A'' ''title''
       (default_ResponseSettings\<lparr>max_attempts := 7\<rparr>)
       (Some [(''A'', ''Answer A''), (''B'', ''Answer B'')])
     = Inr (choice_question ''A'' ''title'')"
    by (simp add: choice_question_eq new_MultipleChoiceQuizQuestion_eq map_of_transformations)
  from multiple_choice_max_attempts [of "''Which answer is A?''" "''A''" "''title''"
      "default_ResponseSettings\<lparr>max_attempts := 7\<rparr>"
      "Some [(''A'', ''Answer A''), (''B'', ''Answer B'')]" "choice_question ''A'' ''title''"] 1
  show ?thesis
    by (simp add: default_ResponseSettings_def)
qed

subsection \<open>The startup gate\<close>

lemma startup_N:
  assumes "stdin w = ''N'' # rest"
  shows "startup w =
           (Inr False,
            w\<lparr>stdin := rest,
              stdout := stdout w @
                [Print ''Welcome to my computer quiz!'', Print [],
                 Input (''Do you want to play?'' @ newline @ ''  Y: Yes'' @ newline
                          @ ''  N: No'' @ newline @ ''> ''),
                 Print ''Another time then! Goodbye :)'']\<rparr>)"
  using assms
  by (simp add: startup_def startup_question_eq startup_response_settings_def run_defs
      str_title_examples)

lemma main_not_played:
  "fst (startup w) = Inr False \<Longrightarrow> main w = (Inr (), snd (startup w))"
  by (cases "startup w") (simp add: main_def)

lemma startup_True:
  assumes "fst (startup w) = Inr True"
  shows "\<exists>q q' w' a.
           startup_question = Inr q \<and>
           handle_question_and_answer None q (print ''Welcome to my computer quiz!'' w)
             = (Inr (), q', w') \<and>
           answer q' = Some a \<and> transform q' a = ''Y'' \<and>
           options q' = Some [(''Y'', ''Yes''), (''N'', ''No'')] \<and>
           validate_response q' w' = (Inr True, w')"
proof -
  obtain q where sq: "startup_question = Inr q"
    and q: "q = \<lparr>cls = MultipleChoiceQuizQuestionClass, question = ''Do you want to play?'',
            correct_answer = ''Y'', answer = None, transformation_name = ''title'',
            transformation = str_title,
            response_settings = startup_response_settings\<lparr>max_attempts := 3\<rparr>,
            attempt_count = 0, options = Some [(''Y'', ''Yes''), (''N'', ''No'')]\<rparr>"
    by (simp add: startup_question_eq)
  let ?w0 = "print ''Welcome to my computer quiz!'' w"
  obtain r q' w' where run: "handle_question_and_answer None q ?w0 = (r, q', w')"
    by (metis prod_cases3)
  have st: "fst (startup w) = (case r of Inl e \<Rightarrow> Inl e | Inr u \<Rightarrow> is_correct_answer q')"
    by (cases r) (simp_all add: startup_def sq run Let_def)
  from assms st have r: "r = Inr ()" and c: "is_correct_answer q' = Inr True"
    by (cases r; simp)+
  from handle_question_and_answer_frame [OF run] obtain t a c
    where q': "q' = q\<lparr>question := t, answer := a, attempt_count := c\<rparr>"
    by blast
  from c q' q obtain x where a: "a = Some x" and x: "str_title x = ''Y''"
    by (auto simp: is_correct_answer_def transform_def str_title_examples
        split: option.splits)
  from x have "x \<noteq> []"
    by (auto simp: str_title_examples)
  with q q' a x have v: "validate_response q' w' = (Inr True, w')"
    by (simp add: validate_response_def MultipleChoiceQuizQuestion_validate_response_def
        valid_possible_answers_def no_answer_def no_options_def transform_def
        str_title_examples)
  have f: "answer q' = Some x" "transform q' x = ''Y''"
    "options q' = Some [(''Y'', ''Yes''), (''N'', ''No'')]"
    using q q' a x by (simp_all add: transform_def)
  from run r have "handle_question_and_answer None q ?w0 = (Inr (), q', w')"
    by simp
  with sq f v show ?thesis by blast
qed

text \<open>
  C8. On ASCII input, \<^verbatim>\<open>startup\<close> returns \<^verbatim>\<open>True\<close> only if the question returned with an
  answer that passes validation and is transformed to the key \<^verbatim>\<open>"Y"\<close> of the option Yes.
  When it returns \<^verbatim>\<open>False\<close>, \<^verbatim>\<open>main\<close> ends in the state \<^verbatim>\<open>startup\<close> left: \<^verbatim>\<open>start_quiz\<close>
  and \<^verbatim>\<open>display_score\<close> are not called. When the first input is \<^verbatim>\<open>"N"\<close>, \<^verbatim>\<open>startup\<close>
  returns \<^verbatim>\<open>False\<close> and all \<^verbatim>\<open>main\<close> writes is the welcome, the empty header, the
  prompt of the gate and its message for an incorrect answer.
\<close>

theorem startup_gate:
  assumes "list_all ascii_str (stdin w)"
  shows "(fst (startup w) = Inr True \<longrightarrow>
            (\<exists>q q' w' a.
               startup_question = Inr q \<and>
               handle_question_and_answer None q (print ''Welcome to my computer quiz!'' w)
                 = (Inr (), q', w') \<and>
               answer q' = Some a \<and> transform q' a = ''Y'' \<and>
               options q' = Some [(''Y'', ''Yes''), (''N'', ''No'')] \<and>
               validate_response q' w' = (Inr True, w'))) \<and>
         (fst (startup w) = Inr False \<longrightarrow> main w = (Inr (), snd (startup w))) \<and>
         (\<forall>rest. stdin w = ''N'' # rest \<longrightarrow>
            startup w =
              (Inr False,
               w\<lparr>stdin := rest,
                 stdout := stdout w @
                   [Print ''Welcome to my computer quiz!'', Print [],
                    Input (''Do you want to play?'' @ newline @ ''  Y: Yes'' @ newline
                             @ ''  N: No'' @ newline @ ''> ''),
                    Print ''Another time then! Goodbye :)'']\<rparr>) \<and>
            main w =
              (Inr (),
               w\<lparr>stdin := rest,
                 stdout := stdout w @
                   [Print ''Welcome to my computer quiz!'', Print [],
                    Input (''Do you want to play?'' @ newline @ ''  Y: Yes'' @ newline
                             @ ''  N: No'' @ newline @ ''> ''),
                    Print ''Another time then! Goodbye :)'']\<rparr>))"
proof (intro conjI impI allI)
  assume "fst (startup w) = Inr True"
  then show "\<exists>q q' w' a.
               startup_question = Inr q \<and>
               handle_question_and_answer None q (print ''Welcome to my computer quiz!'' w)
                 = (Inr (), q', w') \<and>
               answer q' = Some a \<and> transform q' a = ''Y'' \<and>
               options q' = Some [(''Y'', ''Yes''), (''N'', ''No'')] \<and>
               validate_response q' w' = (Inr True, w')"
    by (rule startup_True)
next
  assume "fst (startup w) = Inr False"
  then show "main w = (Inr (), snd (startup w))"
    by (rule main_not_played)
next
  fix rest assume n: "stdin w = ''N'' # rest"
  show "startup w =
              (Inr False,
               w\<lparr>stdin := rest,
                 stdout := stdout w @
                   [Print ''Welcome to my computer quiz!'', Print [],
                    Input (''Do you want to play?'' @ newline @ ''  Y: Yes'' @ newline
                             @ ''  N: No'' @ newline @ ''> ''),
                    Print ''Another time then! Goodbye :)'']\<rparr>)"
    by (rule startup_N [OF n])
  then show "main w =
              (Inr (),
               w\<lparr>stdin := rest,
                 stdout := stdout w @
                   [Print ''Welcome to my computer quiz!'', Print [],
                    Input (''Do you want to play?'' @ newline @ ''  Y: Yes'' @ newline
                             @ ''  N: No'' @ newline @ ''> ''),
                    Print ''Another time then! Goodbye :)'']\<rparr>)"
    by (simp add: main_def)
qed

lemma startup_y:
  "startup \<lparr>stdin = [''y''], stdout = []\<rparr> =
     (Inr True,
      \<lparr>stdin = [],
       stdout =
         [Print ''Welcome to my computer quiz!'', Print [],
          Input (''Do you want to play?'' @ newline @ ''  Y: Yes'' @ newline
                   @ ''  N: No'' @ newline @ ''> ''),
          Print ''Great! Let's play :)'']\<rparr>)"
proof -
  have y: "str_title ''y'' = ''Y''" by code_simp
  show ?thesis
    by (simp add: startup_def startup_question_eq startup_response_settings_def run_defs
        str_title_examples y)
qed

theorem startup_gate_witness:
  "list_all ascii_str (stdin \<lparr>stdin = [''N''], stdout = []\<rparr>) \<and>
   list_all ascii_str (stdin \<lparr>stdin = [''y''], stdout = []\<rparr>) \<and>
   fst (startup \<lparr>stdin = [''y''], stdout = []\<rparr>) = Inr True \<and>
   (\<exists>q q' w' a.
      startup_question = Inr q \<and>
      handle_question_and_answer None q
          (print ''Welcome to my computer quiz!'' \<lparr>stdin = [''y''], stdout = []\<rparr>)
        = (Inr (), q', w') \<and>
      answer q' = Some a \<and> transform q' a = ''Y'' \<and>
      options q' = Some [(''Y'', ''Yes''), (''N'', ''No'')] \<and>
      validate_response q' w' = (Inr True, w')) \<and>
   main \<lparr>stdin = [''N''], stdout = []\<rparr> =
     (Inr (),
      \<lparr>stdin = [],
       stdout =
         [Print ''Welcome to my computer quiz!'', Print [],
          Input (''Do you want to play?'' @ newline @ ''  Y: Yes'' @ newline
                   @ ''  N: No'' @ newline @ ''> ''),
          Print ''Another time then! Goodbye :)'']\<rparr>)"
proof -
  have 1: "list_all ascii_str (stdin \<lparr>stdin = [''N''], stdout = []\<rparr>)"
    and 2: "list_all ascii_str (stdin \<lparr>stdin = [''y''], stdout = []\<rparr>)"
    by (simp_all add: ascii_str_def)
  have 3: "fst (startup \<lparr>stdin = [''y''], stdout = []\<rparr>) = Inr True"
    by (simp add: startup_y)
  from startup_gate [OF 1] startup_gate [OF 2] 1 2 3 show ?thesis
    by simp
qed

end
